theory Spec2Isabelle
  imports Main "HOL-Library.AList"
begin

section \<open>JavaScript values\<close>

text \<open>
  Primitive values, as they occur as embed payloads of a Quill delta
  (\<open>{image: url}\<close>, \<open>{br: true}\<close>).  On primitives the comparison of
  \<open>Array.prototype.includes\<close> (SameValueZero) is equality of values.
\<close>

datatype prim = PUndefined | PNull | PBool bool | PNum int | PStr string

text \<open>Truthiness of a primitive, as \<open>if (v)\<close> and \<open>a && b\<close> test it.\<close>

fun truthy_prim :: "prim \<Rightarrow> bool" where
  "truthy_prim PUndefined = False"
| "truthy_prim PNull = False"
| "truthy_prim (PBool b) = b"
| "truthy_prim (PNum n) = (n \<noteq> 0)"
| "truthy_prim (PStr s) = (s \<noteq> [])"

section \<open>playground/modules/ImageHandler.ts: detection of removed images\<close>

text \<open>
  \<open>op.insert\<close> of a delta operation is a string of text or an embed object;
  retain and delete operations have no \<open>insert\<close> (\<open>None\<close>).
\<close>

datatype insert_val = InsertText string | InsertEmbed "(string \<times> prim) list"

datatype op = Op (op_insert: "insert_val option")

text \<open>A delta; \<open>ops\<close> is \<open>None\<close> when the property is undefined.\<close>

record delta =
  ops :: "op list option"

text \<open>
  The value of \<open>op.insert && op.insert.image\<close>: the left operand when it is falsy
  (an absent insert, the empty string), otherwise the property \<open>image\<close> of the insert,
  which a string does not have.
\<close>

definition insert_and_image :: "op \<Rightarrow> prim" where
  "insert_and_image opr =
     (case op_insert opr of
        None \<Rightarrow> PUndefined
      | Some (InsertText s) \<Rightarrow> (if s = [] then PStr [] else PUndefined)
      | Some (InsertEmbed kv) \<Rightarrow>
          (case map_of kv ''image'' of None \<Rightarrow> PUndefined | Some v \<Rightarrow> v))"

text \<open>
  \<open>extractImageSources\<close>: the loop \<open>(delta.ops || []).forEach\<close> pushes
  \<open>op.insert.image\<close> onto \<open>sources\<close> whenever the guard is truthy (then the guard's
  value is that property).
\<close>

definition ops_or_empty :: "delta \<Rightarrow> op list" where
  "ops_or_empty d = (case ops d of None \<Rightarrow> [] | Some xs \<Rightarrow> xs)"

fun extract_loop :: "op list \<Rightarrow> prim list \<Rightarrow> prim list" where
  "extract_loop [] sources = sources"
| "extract_loop (opr # rest) sources =
     (if truthy_prim (insert_and_image opr)
      then extract_loop rest (sources @ [insert_and_image opr])
      else extract_loop rest sources)"

definition extractImageSources :: "delta \<Rightarrow> prim list" where
  "extractImageSources d = extract_loop (ops_or_empty d) []"

text \<open>\<open>Array.prototype.includes\<close> on an array of primitives.\<close>

fun array_includes :: "prim list \<Rightarrow> prim \<Rightarrow> bool" where
  "array_includes [] v = False"
| "array_includes (x # xs) v = (x = v \<or> array_includes xs v)"

text \<open>Calls made on the image service, in the order they are issued.\<close>

datatype service_call = ServiceDelete prim

text \<open>
  The \<open>text-change\<close> listener of the module's constructor.  Its inputs are the
  listener's \<open>oldDelta\<close> argument and the value of \<open>quill.getContents()\<close>; the
  result is the sequence of \<open>ImageService.delete\<close> calls of the final \<open>forEach\<close>.
\<close>

definition deleted_images :: "delta \<Rightarrow> delta \<Rightarrow> prim list" where
  "deleted_images oldDelta contents =
     (let oldImages = extractImageSources oldDelta;
          newImages = extractImageSources contents
      in filter (\<lambda>url. \<not> array_includes newImages url) oldImages)"

definition image_text_change :: "delta \<Rightarrow> delta \<Rightarrow> service_call list" where
  "image_text_change oldDelta contents = map ServiceDelete (deleted_images oldDelta contents)"

text \<open>A delta whose operations insert the given image URLs, one embed each.\<close>

definition image_op :: "string \<Rightarrow> op" where
  "image_op url = Op (Some (InsertEmbed [(''image'', PStr url)]))"

section \<open>playground/modules/ImageHandler.ts: resizing the selected image\<close>

text \<open>
  The elements below the editor root (\<open>quill.root\<close>) in document order, which is
  the order \<open>querySelector\<close> searches.  \<open>classList\<close> is the element's token list.
\<close>

record element =
  tagName :: string
  classList :: "string list"

datatype image_size = Small | Medium | Large

text \<open>The selector \<open>img.image-selected\<close>.\<close>

definition img_image_selected :: "element \<Rightarrow> bool" where
  "img_image_selected e \<longleftrightarrow> tagName e = ''IMG'' \<and> ''image-selected'' \<in> set (classList e)"

text \<open>\<open>querySelector\<close>: the position of the first matching element, if any.\<close>

fun querySelector :: "element list \<Rightarrow> nat option" where
  "querySelector [] = None"
| "querySelector (e # es) =
     (if img_image_selected e then Some 0 else map_option Suc (querySelector es))"

text \<open>\<open>classList.remove(tokens)\<close> and \<open>classList.add(token)\<close> of a token list.\<close>

definition classList_remove :: "string list \<Rightarrow> string list \<Rightarrow> string list" where
  "classList_remove tokens cl = filter (\<lambda>c. c \<notin> set tokens) cl"

definition classList_add :: "string \<Rightarrow> string list \<Rightarrow> string list" where
  "classList_add token cl = (if token \<in> set cl then cl else cl @ [token])"

text \<open>The \<open>switch\<close> over the requested size.\<close>

fun size_class :: "image_size \<Rightarrow> string" where
  "size_class Small = ''w-3/5''"
| "size_class Medium = ''w-4/5''"
| "size_class Large = ''w-full''"

definition resize :: "image_size \<Rightarrow> element \<Rightarrow> element" where
  "resize sz selectedImage =
     selectedImage\<lparr>classList :=
       classList_add (size_class sz)
         (classList_remove [''w-3/5'', ''w-4/5'', ''w-full''] (classList selectedImage))\<rparr>"

text \<open>
  \<open>adjustImageSize\<close>.  The argument is the editor root's content, \<open>None\<close> when
  \<open>quill.root\<close> is absent; the result is the content after the call.
\<close>

definition adjustImageSize :: "image_size \<Rightarrow> element list option \<Rightarrow> element list option" where
  "adjustImageSize sz editorEl =
     (case editorEl of
        None \<Rightarrow> None
      | Some els \<Rightarrow>
          (case querySelector els of
             None \<Rightarrow> Some els
           | Some i \<Rightarrow> Some (els[i := resize sz (els ! i)])))"

text \<open>An editor content with a paragraph, a selected image and another image.\<close>

definition example_root :: "element list" where
  "example_root =
     [\<lparr>tagName = ''P'', classList = []\<rparr>,
      \<lparr>tagName = ''IMG'', classList = [''image-selected'', ''w-full'', ''rounded'']\<rparr>,
      \<lparr>tagName = ''IMG'', classList = [''w-3/5'']\<rparr>]"

section \<open>playground/services/ImageService.ts\<close>

text \<open>The outcome of an \<open>async\<close> function: its promise resolves or rejects.\<close>

datatype 'a promise = is_Resolved: Resolved 'a | is_Rejected: Rejected string

record js_file =
  file_name :: string
  file_bytes :: "nat list"

text \<open>
  Whether the server can be reached when the service is called, and the requests a call
  sends.  Both bodies keep their server call inside a comment, so neither function reads
  the network and neither sends a request.
\<close>

datatype network = Online | Offline

datatype request = Fetch string string

definition ImageService_upload :: "network \<Rightarrow> js_file \<Rightarrow> string promise \<times> request list" where
  "ImageService_upload net file = (Resolved ''https://picsum.photos/200/300'', [])"

definition ImageService_delete :: "network \<Rightarrow> string \<Rightarrow> unit promise \<times> request list" where
  "ImageService_delete net imageUrl = (Resolved (), [])"

section \<open>src/QuillBlogEditor.vue: values and toolbar presets\<close>

text \<open>
  Values of module and toolbar configurations.  An object is the list of its own
  properties in insertion order; \<open>JRef\<close> names a function or a built-in object.
\<close>

datatype jsval =
    JUndefined | JNull | JBool bool | JNum int | JStr string
  | JArr "jsval list" | JObj "(string \<times> jsval) list" | JRef string

fun truthy :: "jsval \<Rightarrow> bool" where
  "truthy JUndefined = False"
| "truthy JNull = False"
| "truthy (JBool b) = b"
| "truthy (JNum n) = (n \<noteq> 0)"
| "truthy (JStr s) = (s \<noteq> [])"
| "truthy (JArr xs) = True"
| "truthy (JObj kv) = True"
| "truthy (JRef r) = True"

text \<open>\<open>a || b\<close>.\<close>

definition js_or :: "jsval \<Rightarrow> jsval \<Rightarrow> jsval" where
  "js_or a b = (if truthy a then a else b)"

text \<open>
  The properties every object literal inherits from \<open>Object.prototype\<close>.  A property
  read \<open>obj[key]\<close> finds an own property first and an inherited one otherwise; the
  operator \<open>in\<close> looks in both places too.
\<close>

definition Object_prototype :: "(string \<times> jsval) list" where
  "Object_prototype =
     [(''constructor'', JRef ''Object''),
      (''__defineGetter__'', JRef ''Object.prototype.__defineGetter__''),
      (''__defineSetter__'', JRef ''Object.prototype.__defineSetter__''),
      (''hasOwnProperty'', JRef ''Object.prototype.hasOwnProperty''),
      (''__lookupGetter__'', JRef ''Object.prototype.__lookupGetter__''),
      (''__lookupSetter__'', JRef ''Object.prototype.__lookupSetter__''),
      (''isPrototypeOf'', JRef ''Object.prototype.isPrototypeOf''),
      (''propertyIsEnumerable'', JRef ''Object.prototype.propertyIsEnumerable''),
      (''toString'', JRef ''Object.prototype.toString''),
      (''valueOf'', JRef ''Object.prototype.valueOf''),
      (''__proto__'', JRef ''Object.prototype''),
      (''toLocaleString'', JRef ''Object.prototype.toLocaleString'')]"

definition get_property :: "(string \<times> jsval) list \<Rightarrow> string \<Rightarrow> jsval" where
  "get_property obj key =
     (case map_of obj key of
        Some v \<Rightarrow> v
      | None \<Rightarrow> (case map_of Object_prototype key of Some v \<Rightarrow> v | None \<Rightarrow> JUndefined))"

definition js_in :: "string \<Rightarrow> (string \<times> jsval) list \<Rightarrow> bool" where
  "js_in key obj \<longleftrightarrow> key \<in> set (map fst obj) \<or> key \<in> set (map fst Object_prototype)"

definition Object_keys :: "(string \<times> jsval) list \<Rightarrow> string list" where
  "Object_keys obj = map fst obj"

definition preset_full :: jsval where
  "preset_full =
     JArr [JArr [JObj [(''header'', JArr [JNum 1, JNum 2, JNum 3, JBool False])]],
           JArr [JStr ''bold'', JStr ''italic'', JStr ''underline'', JStr ''strike''],
           JArr [JObj [(''list'', JStr ''ordered'')], JObj [(''list'', JStr ''bullet'')]],
           JArr [JObj [(''indent'', JStr ''-1'')], JObj [(''indent'', JStr ''+1'')]],
           JArr [JObj [(''align'', JArr [])]],
           JArr [JStr ''blockquote'', JStr ''code-block''],
           JArr [JStr ''link'', JStr ''image''],
           JArr [JStr ''clean'']]"

definition preset_basic :: jsval where
  "preset_basic = JArr [JArr [JStr ''bold'', JStr ''italic''], JArr [JStr ''link'']]"

definition TOOLBAR_PRESETS :: "(string \<times> jsval) list" where
  "TOOLBAR_PRESETS = [(''full'', preset_full), (''basic'', preset_basic)]"

section \<open>src/QuillBlogEditor.vue: props and initial configuration\<close>

text \<open>The prop \<open>toolbar\<close> has type \<open>[String, Array]\<close>.\<close>

datatype toolbar_prop = ToolbarString string | ToolbarArray "jsval list"

text \<open>
  The prop \<open>options\<close>, as the component destructures it: the entry \<open>modules\<close>
  (\<open>None\<close> when the caller gives none) and the remaining entries.
\<close>

record quill_options =
  modules :: "(string \<times> jsval) list option"
  otherOptions :: "(string \<times> jsval) list"

record props =
  modelValue :: string
  theme :: string
  placeholder :: string
  readOnly :: bool
  formats :: "string list option"
  toolbar :: toolbar_prop
  options :: quill_options

text \<open>
  \<open>Array.isArray(props.toolbar) ? props.toolbar
     : TOOLBAR_PRESETS[props.toolbar] || TOOLBAR_PRESETS.full\<close>
\<close>

definition resolve_toolbar :: "toolbar_prop \<Rightarrow> jsval" where
  "resolve_toolbar t =
     (case t of
        ToolbarArray arr \<Rightarrow> JArr arr
      | ToolbarString name \<Rightarrow>
          js_or (get_property TOOLBAR_PRESETS name) (get_property TOOLBAR_PRESETS ''full''))"

definition default_keyboard :: jsval where
  "default_keyboard =
     JObj [(''bindings'',
            JObj [(''shift+enter'',
                   JObj [(''key'', JArr [JStr ''Enter'']),
                         (''shiftKey'', JBool True),
                         (''handler'', JRef ''softBreakHandler'')])])]"

text \<open>The object literal that initialises \<open>mergedModules\<close>.\<close>

definition default_modules :: "props \<Rightarrow> (string \<times> jsval) list" where
  "default_modules p = [(''keyboard'', default_keyboard), (''toolbar'', resolve_toolbar (toolbar p))]"

text \<open>
  An assignment \<open>obj[key] = v\<close> to an object literal replaces the value of an existing
  own property in place and appends a new own property otherwise.  The one exception is
  the key \<open>__proto__\<close>: it is an accessor inherited from \<open>Object.prototype\<close>, so the
  assignment runs its setter and the own properties stay as they are.
\<close>

definition assign :: "string \<Rightarrow> jsval \<Rightarrow> (string \<times> jsval) list \<Rightarrow> (string \<times> jsval) list" where
  "assign key v obj = (if key = ''__proto__'' then obj else AList.update key v obj)"

text \<open>
  The loop over \<open>Object.keys(props.options.modules)\<close>: the key \<open>toolbar\<close> is skipped,
  every other key is assigned.
\<close>

fun merge_loop ::
  "string list \<Rightarrow> (string \<times> jsval) list \<Rightarrow> (string \<times> jsval) list \<Rightarrow> (string \<times> jsval) list" where
  "merge_loop [] m merged = merged"
| "merge_loop (key # keys) m merged =
     (if key = ''toolbar'' then merge_loop keys m merged
      else merge_loop keys m (assign key (get_property m key) merged))"

definition mergedModules :: "props \<Rightarrow> (string \<times> jsval) list" where
  "mergedModules p =
     (case modules (options p) of
        None \<Rightarrow> default_modules p
      | Some m \<Rightarrow>
          (let merged = merge_loop (Object_keys m) m (default_modules p)
           in if js_in ''toolbar'' m
              then assign ''toolbar'' (get_property m ''toolbar'') merged
              else merged))"

text \<open>
  \<open>finalOptions\<close>: five entries of the component's own, then the spread of
  \<open>otherOptions\<close>, which by the destructuring holds no entry \<open>modules\<close>.
\<close>

definition spread :: "(string \<times> jsval) list \<Rightarrow> (string \<times> jsval) list \<Rightarrow> (string \<times> jsval) list" where
  "spread src obj = foldl (\<lambda>acc kv. AList.update (fst kv) (snd kv) acc) obj src"

definition finalOptions :: "props \<Rightarrow> (string \<times> jsval) list" where
  "finalOptions p =
     spread (filter (\<lambda>kv. fst kv \<noteq> ''modules'') (otherOptions (options p)))
       [(''theme'', JStr (theme p)),
        (''placeholder'', JStr (placeholder p)),
        (''readOnly'', JBool (readOnly p)),
        (''formats'', (case formats p of None \<Rightarrow> JUndefined | Some fs \<Rightarrow> JArr (map JStr fs))),
        (''modules'', JObj (mergedModules p))]"

section \<open>src/QuillBlogEditor.vue: the editor instance and the component's reactions\<close>

text \<open>
  What the component reads from the Quill instance: the HTML of its root and the leaf
  blot at an index (\<open>quill.getLeaf(i)[0]\<close>, \<open>None\<close> for \<open>null\<close>).  A leaf is known
  by the identity of its parent blot.
\<close>

record leaf =
  parent :: nat

record quill =
  root_innerHTML :: string
  getLeaf :: "int \<Rightarrow> leaf option"

datatype js_range = RangeNull | RangeUndefined | Range (range_index: int) (range_length: int)

datatype source = USER | SILENT | API

text \<open>
  Accesses the component makes to the library, reads (\<open>getLeaf\<close>) included, and events
  it emits to its parent.
\<close>

datatype quill_call =
    NewQuill string "(string \<times> jsval) list"
  | AddMatcher string
  | DangerouslyPasteHTML string
  | On string
  | GetLeaf int
  | InsertEmbed int string jsval source
  | SetSelection int source

datatype event = UpdateModelValue string | TextChange | Focus | Blur | Ready quill

text \<open>
  The library is a parameter: the instance \<open>new Quill(container, options)\<close> returns, the
  instance after \<open>clipboard.dangerouslyPasteHTML(html)\<close>, whether an instance's
  \<open>clipboard\<close> has the method \<open>addMatcher\<close>, and whether the class has the static
  member \<open>sources\<close>.  Calling a method that is missing, or reading a property of a
  missing member, throws a \<open>TypeError\<close>.
\<close>

record quill_lib =
  lib_new :: "string \<Rightarrow> (string \<times> jsval) list \<Rightarrow> quill"
  lib_paste :: "string \<Rightarrow> quill \<Rightarrow> quill"
  lib_addMatcher :: bool
  lib_sources :: bool

datatype js_error = TypeError

text \<open>\<open>s || ''\<close> on a string.\<close>

definition or_empty :: "string \<Rightarrow> string" where
  "or_empty s = (if s \<noteq> [] then s else [])"

text \<open>
  A step of a handler: from the accesses made so far it returns a value or throws, and
  it may add accesses.  A throw ends the handler; the accesses made before it stay.
\<close>

type_synonym 'a step = "quill_call list \<Rightarrow> (js_error + 'a) \<times> quill_call list"

definition ret :: "'a \<Rightarrow> 'a step" where
  "ret x = (\<lambda>tr. (Inr x, tr))"

definition throw :: "js_error \<Rightarrow> 'a step" where
  "throw e = (\<lambda>tr. (Inl e, tr))"

definition and_then :: "'a step \<Rightarrow> ('a \<Rightarrow> 'b step) \<Rightarrow> 'b step" where
  "and_then m f =
     (\<lambda>tr. case m tr of (Inl e, tr') \<Rightarrow> (Inl e, tr') | (Inr x, tr') \<Rightarrow> f x tr')"

definition access :: "quill_call \<Rightarrow> unit step" where
  "access c = (\<lambda>tr. (Inr (), tr @ [c]))"

text \<open>
  The member expressions of the handler.  \<open>quill\<close> is the module variable
  (\<open>Quill | null\<close>): a method call on \<open>null\<close> throws.  \<open>range.index\<close> throws on
  \<open>null\<close> and \<open>undefined\<close>.  \<open>Quill.sources.USER\<close> throws when the class has no
  \<open>sources\<close>.
\<close>

definition quill_getLeaf :: "quill option \<Rightarrow> int \<Rightarrow> leaf option step" where
  "quill_getLeaf q i =
     (case q of
        None \<Rightarrow> throw TypeError
      | Some quill \<Rightarrow> and_then (access (GetLeaf i)) (\<lambda>_. ret (getLeaf quill i)))"

definition quill_insertEmbed :: "quill option \<Rightarrow> int \<Rightarrow> string \<Rightarrow> jsval \<Rightarrow> source \<Rightarrow> unit step" where
  "quill_insertEmbed q i name v src =
     (case q of None \<Rightarrow> throw TypeError | Some quill \<Rightarrow> access (InsertEmbed i name v src))"

definition quill_setSelection :: "quill option \<Rightarrow> int \<Rightarrow> source \<Rightarrow> unit step" where
  "quill_setSelection q i src =
     (case q of None \<Rightarrow> throw TypeError | Some quill \<Rightarrow> access (SetSelection i src))"

definition range_dot_index :: "js_range \<Rightarrow> int step" where
  "range_dot_index rng = (case rng of Range i n \<Rightarrow> ret i | _ \<Rightarrow> throw TypeError)"

definition Quill_sources :: "quill_lib \<Rightarrow> source \<Rightarrow> source step" where
  "Quill_sources lib src = (if lib_sources lib then ret src else throw TypeError)"

text \<open>\<open>!range\<close> is false for a range object only.\<close>

fun truthy_range :: "js_range \<Rightarrow> bool" where
  "truthy_range RangeNull = False"
| "truthy_range RangeUndefined = False"
| "truthy_range (Range i n) = True"

text \<open>
  \<open>currentLeaf != null && (nextLeaf === null || currentLeaf.parent !== nextLeaf.parent)\<close>
\<close>

definition second_break :: "leaf option \<Rightarrow> leaf option \<Rightarrow> bool" where
  "second_break currentLeaf nextLeaf =
     (case currentLeaf of
        None \<Rightarrow> False
      | Some cur \<Rightarrow> (case nextLeaf of None \<Rightarrow> True | Some nxt \<Rightarrow> parent cur \<noteq> parent nxt))"

text \<open>\<open>quill.insertEmbed(range.index, 'br', true, Quill.sources.USER)\<close>\<close>

definition insert_br :: "quill_lib \<Rightarrow> quill option \<Rightarrow> js_range \<Rightarrow> unit step" where
  "insert_br lib q rng =
     and_then (range_dot_index rng) (\<lambda>i.
     and_then (Quill_sources lib USER) (\<lambda>user.
     quill_insertEmbed q i ''br'' (JBool True) user))"

text \<open>
  \<open>softBreakHandler\<close>: what it returns or throws, and every access it made to the
  editor, in order.
\<close>

definition softBreakHandler ::
  "quill_lib \<Rightarrow> quill option \<Rightarrow> js_range \<Rightarrow> jsval \<Rightarrow> (js_error + bool) \<times> quill_call list" where
  "softBreakHandler lib q rng context =
     (if q = None \<or> \<not> truthy_range rng then ret False
      else
        and_then (range_dot_index rng) (\<lambda>i.
        and_then (quill_getLeaf q i) (\<lambda>currentLeaf.
        and_then (range_dot_index rng) (\<lambda>j.
        and_then (quill_getLeaf q (j + 1)) (\<lambda>nextLeaf.
        and_then (insert_br lib q rng) (\<lambda>_.
        and_then (if second_break currentLeaf nextLeaf then insert_br lib q rng else ret ()) (\<lambda>_.
        and_then (range_dot_index rng) (\<lambda>k.
        and_then (Quill_sources lib SILENT) (\<lambda>silent.
        and_then (quill_setSelection q (k + 1) silent) (\<lambda>_.
        ret False)))))))))) []"

text \<open>
  \<open>onMounted\<close>, after \<open>nextTick\<close>: nothing happens without the container element.
  Otherwise the editor is created and kept in \<open>quill\<close>; then \<open>clipboard.addMatcher\<close>
  is called, which throws if the library has no such method; then the initial content
  is pasted, the two listeners are registered and \<open>ready\<close> is emitted with \<open>quill\<close>.
\<close>

record mounted =
  m_quill :: "quill option"
  m_calls :: "quill_call list"
  m_emitted :: "event list"
  m_thrown :: "js_error option"

definition onMounted :: "quill_lib \<Rightarrow> props \<Rightarrow> string option \<Rightarrow> mounted" where
  "onMounted lib p editorContainer =
     (case editorContainer of
        None \<Rightarrow> \<lparr>m_quill = None, m_calls = [], m_emitted = [], m_thrown = None\<rparr>
      | Some container \<Rightarrow>
          (let created = lib_new lib container (finalOptions p)
           in if \<not> lib_addMatcher lib
              then \<lparr>m_quill = Some created,
                    m_calls = [NewQuill container (finalOptions p)],
                    m_emitted = [],
                    m_thrown = Some TypeError\<rparr>
              else
                (let quill = lib_paste lib (or_empty (modelValue p)) created
                 in \<lparr>m_quill = Some quill,
                     m_calls = [NewQuill container (finalOptions p),
                                AddMatcher ''BR'',
                                DangerouslyPasteHTML (or_empty (modelValue p)),
                                On ''text-change'',
                                On ''selection-change''],
                     m_emitted = [Ready quill],
                     m_thrown = None\<rparr>)))"

text \<open>The listener of \<open>text-change\<close>; \<open>quill\<close> is the instance it was registered on.\<close>

definition text_change_listener :: "quill \<Rightarrow> event list" where
  "text_change_listener quill = [UpdateModelValue (root_innerHTML quill), TextChange]"

text \<open>The listener of \<open>selection-change\<close>: the test is \<open>range === null\<close>.\<close>

definition selection_change_listener :: "js_range \<Rightarrow> event list" where
  "selection_change_listener rng = (if rng = RangeNull then [Blur] else [Focus])"

text \<open>
  The watcher of \<open>props.modelValue\<close>: the calls it makes and the instance afterwards.
\<close>

definition watch_modelValue ::
  "quill_lib \<Rightarrow> quill option \<Rightarrow> string \<Rightarrow> quill_call list \<times> quill option" where
  "watch_modelValue lib q newVal =
     (case q of
        None \<Rightarrow> ([], None)
      | Some quill \<Rightarrow>
          (if newVal \<noteq> root_innerHTML quill
           then ([DangerouslyPasteHTML (or_empty newVal)], Some (lib_paste lib (or_empty newVal) quill))
           else ([], Some quill)))"

section \<open>tests/unit/QuillBlogEditor.spec.ts: the mocked library\<close>

text \<open>
  \<open>MockQuill\<close>: the constructor fills the container with a fixed element, \<open>getLeaf\<close>
  returns one and the same leaf, and \<open>dangerouslyPasteHTML\<close> is a spy without effect.
  Its \<open>clipboard\<close> has no \<open>addMatcher\<close> and the class has no static \<open>sources\<close>.
\<close>

definition MockQuill :: quill_lib where
  \<open>MockQuill =
     \<lparr>lib_new = (\<lambda>container opts.
         \<lparr>root_innerHTML = ''<div class="ql-editor">mock editor</div>'',
          getLeaf = (\<lambda>i. Some \<lparr>parent = 0\<rparr>)\<rparr>),
      lib_paste = (\<lambda>html q. q),
      lib_addMatcher = False,
      lib_sources = False\<rparr>\<close>

section \<open>Observations and example inputs\<close>

text \<open>The payloads of the \<open>update:modelValue\<close> events among the emitted events.\<close>

definition update_payloads :: "event list \<Rightarrow> string list" where
  "update_payloads evs =
     concat (map (\<lambda>e. case e of UpdateModelValue html \<Rightarrow> [html] | _ \<Rightarrow> []) evs)"

text \<open>
  A library with every member the component uses, for the examples: a new editor is
  empty and has no leaves, and a paste stores the HTML as it is given.
\<close>

definition ExampleQuill :: quill_lib where
  "ExampleQuill =
     \<lparr>lib_new = (\<lambda>container opts. \<lparr>root_innerHTML = [], getLeaf = (\<lambda>i. None)\<rparr>),
      lib_paste = (\<lambda>html q. q\<lparr>root_innerHTML := html\<rparr>),
      lib_addMatcher = True,
      lib_sources = True\<rparr>"

text \<open>
  An editor with two paragraphs of three characters: the leaves at the indices up to 3
  have one parent, the leaves after them another.
\<close>

definition example_quill :: quill where
  "example_quill =
     \<lparr>root_innerHTML = ''<p>abc</p><p>def</p>'',
      getLeaf = (\<lambda>i. if i \<le> 3 then Some \<lparr>parent = 1\<rparr> else Some \<lparr>parent = 2\<rparr>)\<rparr>"

text \<open>The props of the unit tests: a content and the defaults of \<open>defineProps\<close>.\<close>

definition test_props :: props where
  "test_props =
     \<lparr>modelValue = ''<p>Initial</p>'', theme = ''snow'', placeholder = ''Write something...'',
      readOnly = False, formats = None, toolbar = ToolbarString ''full'',
      options = \<lparr>modules = None, otherOptions = []\<rparr>\<rparr>"

text \<open>The props of playground/App.vue: an image module and a toolbar object.\<close>

definition playground_modules :: "(string \<times> jsval) list" where
  "playground_modules =
     [(''imageHandler'', JObj []),
      (''toolbar'',
       JObj [(''container'', preset_full),
             (''handlers'', JObj [(''image'', JRef ''customImageHandler'')])])]"

definition playground_props :: props where
  "playground_props =
     \<lparr>modelValue = ''<p>This is a test.</p>'', theme = ''snow'',
      placeholder = ''Write something...'', readOnly = False, formats = None,
      toolbar = ToolbarString ''full'',
      options = \<lparr>modules = Some playground_modules, otherOptions = []\<rparr>\<rparr>"

section \<open>Properties of the image handler\<close>

lemma extract_loop_filter:
  "extract_loop xs acc = acc @ filter truthy_prim (map insert_and_image xs)"
  by (induction xs arbitrary: acc) simp_all

lemma extractImageSources_filter:
  "extractImageSources d = filter truthy_prim (map insert_and_image (ops_or_empty d))"
  by (simp add: extractImageSources_def extract_loop_filter)

lemma includes_set: "array_includes xs v \<longleftrightarrow> v \<in> set xs"
  by (induction xs) auto

lemma deleted_images_filter:
  "deleted_images oldDelta contents =
     filter (\<lambda>url. url \<notin> set (extractImageSources contents)) (extractImageSources oldDelta)"
  by (simp add: deleted_images_def Let_def includes_set)

lemma count_list_filter:
  "count_list (filter P xs) x = (if P x then count_list xs x else 0)"
  by (induction xs) auto

lemma count_list_map_ServiceDelete:
  "count_list (map ServiceDelete xs) (ServiceDelete u) = count_list xs u"
  by (induction xs) auto

text \<open>
  C1 (as stated, refuted).  Two copies of one image stand in the previous snapshot and
  none in the current one: the URL is in the set difference, and two delete calls are
  issued for it, not one.
\<close>

theorem C1_two_deletes_for_one_url:
  "PStr ''a.png'' \<in> set (extractImageSources \<lparr>ops = Some [image_op ''a.png'', image_op ''a.png'']\<rparr>)
   \<and> PStr ''a.png'' \<notin> set (extractImageSources \<lparr>ops = Some [Op (Some (InsertText ''text''))]\<rparr>)
   \<and> image_text_change \<lparr>ops = Some [image_op ''a.png'', image_op ''a.png'']\<rparr> \<lparr>ops = Some [Op (Some (InsertText ''text''))]\<rparr>
       = [ServiceDelete (PStr ''a.png''), ServiceDelete (PStr ''a.png'')]
   \<and> count_list
         (image_text_change \<lparr>ops = Some [image_op ''a.png'', image_op ''a.png'']\<rparr> \<lparr>ops = Some [Op (Some (InsertText ''text''))]\<rparr>)
         (ServiceDelete (PStr ''a.png'')) \<noteq> 1"
  by (simp add: image_text_change_def deleted_images_def extractImageSources_def
      ops_or_empty_def image_op_def insert_and_image_def)

text \<open>
  C1 (amended).  On a content-change notification the delete calls are the image URLs
  of the previous snapshot that do not occur in the current one, in document order and
  once per occurrence in the previous snapshot.  As a set the deleted URLs are the set
  difference of the two snapshots' URLs, and a URL of the current snapshot is never
  deleted.
\<close>

theorem C1_deletes_are_the_removed_images:
  "image_text_change oldDelta contents =
     map ServiceDelete
       (filter (\<lambda>url. url \<notin> set (extractImageSources contents)) (extractImageSources oldDelta))
   \<and> {url. ServiceDelete url \<in> set (image_text_change oldDelta contents)} =
       set (extractImageSources oldDelta) - set (extractImageSources contents)
   \<and> count_list (image_text_change oldDelta contents) (ServiceDelete url) =
       (if url \<in> set (extractImageSources contents) then 0
        else count_list (extractImageSources oldDelta) url)"
proof -
  have calls: "image_text_change oldDelta contents =
     map ServiceDelete
       (filter (\<lambda>url. url \<notin> set (extractImageSources contents)) (extractImageSources oldDelta))"
    by (simp add: image_text_change_def deleted_images_filter)
  have urls: "{url. ServiceDelete url \<in> set (image_text_change oldDelta contents)} =
       set (extractImageSources oldDelta) - set (extractImageSources contents)"
    unfolding calls by auto
  have counts: "count_list (image_text_change oldDelta contents) (ServiceDelete url) =
       (if url \<in> set (extractImageSources contents) then 0
        else count_list (extractImageSources oldDelta) url)"
    unfolding calls by (simp add: count_list_map_ServiceDelete count_list_filter)
  from calls urls counts show ?thesis by blast
qed

section \<open>Properties of the image resizer\<close>

lemma querySelector_Some:
  "querySelector els = Some i \<Longrightarrow>
     i < length els \<and> img_image_selected (els ! i) \<and> (\<forall>j<i. \<not> img_image_selected (els ! j))"
proof (induction els arbitrary: i)
  case Nil
  then show ?case by simp
next
  case (Cons e es)
  show ?case
  proof (cases "img_image_selected e")
    case True
    with Cons.prems show ?thesis by simp
  next
    case False
    with Cons.prems obtain k where k: "querySelector es = Some k" and i: "i = Suc k"
      by auto
    from Cons.IH [OF k] False i show ?thesis
      by (auto simp: nth_Cons split: nat.splits)
  qed
qed

lemma querySelector_None:
  "querySelector els = None \<longleftrightarrow> (\<forall>e \<in> set els. \<not> img_image_selected e)"
  by (induction els) auto

lemma resize_classList:
  "classList (resize sz e) =
     filter (\<lambda>c. c \<notin> {''w-3/5'', ''w-4/5'', ''w-full''}) (classList e) @ [size_class sz]"
  by (cases sz) (simp_all add: resize_def classList_add_def classList_remove_def)

lemma resize_tagName: "tagName (resize sz e) = tagName e"
  by (simp add: resize_def)

lemma querySelector_first:
  "i < length els \<Longrightarrow> img_image_selected (els ! i) \<Longrightarrow>
   (\<forall>j<i. \<not> img_image_selected (els ! j)) \<Longrightarrow> querySelector els = Some i"
proof (induction els arbitrary: i)
  case Nil
  then show ?case by simp
next
  case (Cons e es)
  show ?case
  proof (cases i)
    case 0
    with Cons.prems show ?thesis by simp
  next
    case (Suc k)
    with Cons.prems have e: "\<not> img_image_selected e" by auto
    from Suc Cons.prems have "querySelector es = Some k"
      by (intro Cons.IH) auto
    with e Suc show ?thesis by simp
  qed
qed

text \<open>
  C10.  Without an editor root, or without an element matching \<open>img.image-selected\<close>,
  \<open>adjustImageSize\<close> changes nothing.  Otherwise the element it changes is the first
  selected image: its three width classes are removed and one class is appended,
  \<open>w-3/5\<close> for small, \<open>w-4/5\<close> for medium, \<open>w-full\<close> for large; its other classes
  stay in their order, its tag stays, and every other element is left as it was.
\<close>

theorem C10_adjustImageSize_frame:
  "adjustImageSize sz None = None
   \<and> ((\<forall>e \<in> set els. \<not> img_image_selected e) \<longrightarrow> adjustImageSize sz (Some els) = Some els)
   \<and> (i < length els \<and> img_image_selected (els ! i) \<and> (\<forall>j<i. \<not> img_image_selected (els ! j)) \<longrightarrow>
        (\<exists>els'. adjustImageSize sz (Some els) = Some els'
              \<and> length els' = length els
              \<and> tagName (els' ! i) = tagName (els ! i)
              \<and> classList (els' ! i) =
                  filter (\<lambda>c. c \<notin> {''w-3/5'', ''w-4/5'', ''w-full''}) (classList (els ! i))
                  @ [case sz of Small \<Rightarrow> ''w-3/5'' | Medium \<Rightarrow> ''w-4/5'' | Large \<Rightarrow> ''w-full'']
              \<and> (\<forall>j<length els. j \<noteq> i \<longrightarrow> els' ! j = els ! j)))"
proof (intro conjI impI)
  show "adjustImageSize sz None = None"
    by (simp add: adjustImageSize_def)
next
  assume "\<forall>e \<in> set els. \<not> img_image_selected e"
  then have "querySelector els = None"
    by (simp add: querySelector_None)
  then show "adjustImageSize sz (Some els) = Some els"
    by (simp add: adjustImageSize_def)
next
  assume first: "i < length els \<and> img_image_selected (els ! i)
                 \<and> (\<forall>j<i. \<not> img_image_selected (els ! j))"
  then have lt: "i < length els" by simp
  from first have "querySelector els = Some i"
    by (intro querySelector_first) simp_all
  then have "adjustImageSize sz (Some els) = Some (els[i := resize sz (els ! i)])"
    by (simp add: adjustImageSize_def)
  with lt show "\<exists>els'. adjustImageSize sz (Some els) = Some els'
              \<and> length els' = length els
              \<and> tagName (els' ! i) = tagName (els ! i)
              \<and> classList (els' ! i) =
                  filter (\<lambda>c. c \<notin> {''w-3/5'', ''w-4/5'', ''w-full''}) (classList (els ! i))
                  @ [case sz of Small \<Rightarrow> ''w-3/5'' | Medium \<Rightarrow> ''w-4/5'' | Large \<Rightarrow> ''w-full'']
              \<and> (\<forall>j<length els. j \<noteq> i \<longrightarrow> els' ! j = els ! j)"
    by (cases sz) (simp_all add: resize_classList resize_tagName)
qed

text \<open>
  C10 at the example content, for each of the three sizes: the selected image loses
  \<open>w-full\<close> and gains the class of the size, its class \<open>rounded\<close> and the two other
  elements stay; a content without a selected image stays as it is.
\<close>

theorem C10_witness:
  "1 < length example_root \<and> img_image_selected (example_root ! 1)
   \<and> \<not> img_image_selected (example_root ! 0)
   \<and> adjustImageSize Small (Some example_root) =
       Some [\<lparr>tagName = ''P'', classList = []\<rparr>,
             \<lparr>tagName = ''IMG'', classList = [''image-selected'', ''rounded'', ''w-3/5'']\<rparr>,
             \<lparr>tagName = ''IMG'', classList = [''w-3/5'']\<rparr>]
   \<and> adjustImageSize Medium (Some example_root) =
       Some [\<lparr>tagName = ''P'', classList = []\<rparr>,
             \<lparr>tagName = ''IMG'', classList = [''image-selected'', ''rounded'', ''w-4/5'']\<rparr>,
             \<lparr>tagName = ''IMG'', classList = [''w-3/5'']\<rparr>]
   \<and> adjustImageSize Large (Some example_root) =
       Some [\<lparr>tagName = ''P'', classList = []\<rparr>,
             \<lparr>tagName = ''IMG'', classList = [''image-selected'', ''rounded'', ''w-full'']\<rparr>,
             \<lparr>tagName = ''IMG'', classList = [''w-3/5'']\<rparr>]
   \<and> \<not> img_image_selected \<lparr>tagName = ''P'', classList = [''w-full'']\<rparr>
   \<and> adjustImageSize Small (Some [\<lparr>tagName = ''P'', classList = [''w-full'']\<rparr>]) =
       Some [\<lparr>tagName = ''P'', classList = [''w-full'']\<rparr>]"
proof -
  have first: "1 < length example_root \<and> img_image_selected (example_root ! 1)
     \<and> (\<forall>j<1. \<not> img_image_selected (example_root ! j))"
    by (simp add: example_root_def img_image_selected_def)
  have none: "\<forall>e \<in> set [\<lparr>tagName = ''P'', classList = [''w-full'']\<rparr>]. \<not> img_image_selected e"
    by (simp add: img_image_selected_def)
  have known: "example_root ! 0 = \<lparr>tagName = ''P'', classList = []\<rparr>"
    "example_root ! 1 = \<lparr>tagName = ''IMG'', classList = [''image-selected'', ''w-full'', ''rounded'']\<rparr>"
    "example_root ! 2 = \<lparr>tagName = ''IMG'', classList = [''w-3/5'']\<rparr>"
    "length example_root = 3"
    by (simp_all add: example_root_def)
  have shape: "els' = [els' ! 0, els' ! 1, els' ! 2]" if "length els' = 3" for els' :: "element list"
    using that by (auto simp: list_eq_iff_nth_eq less_Suc_eq numeral_3_eq_3 numeral_2_eq_2)
  have sized: "adjustImageSize sz (Some example_root) =
       Some [\<lparr>tagName = ''P'', classList = []\<rparr>,
             \<lparr>tagName = ''IMG'', classList = [''image-selected'', ''rounded'',
                 case sz of Small \<Rightarrow> ''w-3/5'' | Medium \<Rightarrow> ''w-4/5'' | Large \<Rightarrow> ''w-full'']\<rparr>,
             \<lparr>tagName = ''IMG'', classList = [''w-3/5'']\<rparr>]" for sz
  proof -
    from C10_adjustImageSize_frame [of sz example_root 1] first
    obtain els' where a: "adjustImageSize sz (Some example_root) = Some els'"
      and l: "length els' = length example_root"
      and t: "tagName (els' ! 1) = tagName (example_root ! 1)"
      and c: "classList (els' ! 1) =
          filter (\<lambda>c. c \<notin> {''w-3/5'', ''w-4/5'', ''w-full''}) (classList (example_root ! 1))
          @ [case sz of Small \<Rightarrow> ''w-3/5'' | Medium \<Rightarrow> ''w-4/5'' | Large \<Rightarrow> ''w-full'']"
      and o: "\<forall>j<length example_root. j \<noteq> 1 \<longrightarrow> els' ! j = example_root ! j"
      by blast
    from o known have e0: "els' ! 0 = \<lparr>tagName = ''P'', classList = []\<rparr>"
      and e2: "els' ! 2 = \<lparr>tagName = ''IMG'', classList = [''w-3/5'']\<rparr>"
      by simp_all
    from t c known have e1: "els' ! 1 = \<lparr>tagName = ''IMG'', classList = [''image-selected'', ''rounded'',
                 case sz of Small \<Rightarrow> ''w-3/5'' | Medium \<Rightarrow> ''w-4/5'' | Large \<Rightarrow> ''w-full'']\<rparr>"
      by (cases "els' ! 1") simp
    from l known have "els' = [els' ! 0, els' ! 1, els' ! 2]"
      by (intro shape) simp
    with e0 e1 e2 a show ?thesis by simp
  qed
  from C10_adjustImageSize_frame [of Small "[\<lparr>tagName = ''P'', classList = [''w-full'']\<rparr>]" 0] none
  have s: "adjustImageSize Small (Some [\<lparr>tagName = ''P'', classList = [''w-full'']\<rparr>]) =
       Some [\<lparr>tagName = ''P'', classList = [''w-full'']\<rparr>]"
    by blast
  from first none s sized [of Small] sized [of Medium] sized [of Large] show ?thesis
    by simp
qed

section \<open>Properties of the image service\<close>

text \<open>
  C7 (as stated, refuted).  With the server out of reach the upload of a file does not
  reject: it resolves to the sample URL and no request was sent.
\<close>

theorem C7_upload_resolves_while_offline:
  "ImageService_upload Offline \<lparr>file_name = ''cat.png'', file_bytes = [137, 80, 78, 71]\<rparr>
     = (Resolved ''https://picsum.photos/200/300'', [])
   \<and> \<not> is_Rejected
        (fst (ImageService_upload Offline \<lparr>file_name = ''cat.png'', file_bytes = [137, 80, 78, 71]\<rparr>))"
  by (simp add: ImageService_upload_def)

text \<open>
  C7 (amended).  The example service sends no request.  For every file and every state
  of the network \<open>upload\<close> resolves to the fixed sample URL, \<open>delete\<close> resolves with
  no value, and neither rejects; there is nothing to retry or to recover from.
\<close>

theorem C7_service_never_rejects:
  "ImageService_upload net file = (Resolved ''https://picsum.photos/200/300'', [])
   \<and> \<not> is_Rejected (fst (ImageService_upload net file))
   \<and> snd (ImageService_upload net file) = []
   \<and> ImageService_delete net imageUrl = (Resolved (), [])
   \<and> \<not> is_Rejected (fst (ImageService_delete net imageUrl))
   \<and> snd (ImageService_delete net imageUrl) = []"
  by (simp add: ImageService_upload_def ImageService_delete_def)

section \<open>Properties of the toolbar resolution\<close>

lemma resolve_toolbar_array: "resolve_toolbar (ToolbarArray arr) = JArr arr"
  by (simp add: resolve_toolbar_def)

lemma resolve_toolbar_full: "resolve_toolbar (ToolbarString ''full'') = preset_full"
  by (simp add: resolve_toolbar_def get_property_def TOOLBAR_PRESETS_def js_or_def preset_full_def)

lemma resolve_toolbar_basic: "resolve_toolbar (ToolbarString ''basic'') = preset_basic"
  by (simp add: resolve_toolbar_def get_property_def TOOLBAR_PRESETS_def js_or_def preset_basic_def)

lemma resolve_toolbar_fallback:
  "name \<noteq> ''full'' \<Longrightarrow> name \<noteq> ''basic'' \<Longrightarrow> name \<notin> set (map fst Object_prototype) \<Longrightarrow>
   resolve_toolbar (ToolbarString name) = preset_full"
proof -
  assume a: "name \<noteq> ''full''" "name \<noteq> ''basic''" and b: "name \<notin> set (map fst Object_prototype)"
  from b have "map_of Object_prototype name = None"
    by (simp add: map_of_eq_None_iff)
  with a have "get_property TOOLBAR_PRESETS name = JUndefined"
    by (simp add: get_property_def TOOLBAR_PRESETS_def)
  then show ?thesis
    by (simp add: resolve_toolbar_def js_or_def get_property_def TOOLBAR_PRESETS_def)
qed

text \<open>
  C8 at the string \<open>constructor\<close>, which names no preset: the lookup in
  \<open>TOOLBAR_PRESETS\<close> finds the inherited property, a truthy value, so the fallback to
  the preset \<open>full\<close> is not taken.  For an array, for \<open>full\<close>, for \<open>basic\<close> and
  for every other string that is not a property of \<open>Object.prototype\<close> the resolution is
  as C8 says (the four lemmas above).
\<close>

theorem C8_inherited_name_is_not_full:
  "resolve_toolbar (ToolbarString ''constructor'') = JRef ''Object''
   \<and> resolve_toolbar (ToolbarString ''constructor'') \<noteq> preset_full"
  by (simp add: resolve_toolbar_def get_property_def TOOLBAR_PRESETS_def js_or_def
      Object_prototype_def preset_full_def)

section \<open>Properties of the module merge\<close>

lemma get_property_own: "map_of m k = Some v \<Longrightarrow> get_property m k = v"
  by (simp add: get_property_def)

lemma js_in_toolbar: "js_in ''toolbar'' m \<longleftrightarrow> ''toolbar'' \<in> fst ` set m"
  by (simp add: js_in_def Object_prototype_def)

lemma assign_map_of:
  "map_of (assign key v obj) = (if key = ''__proto__'' then map_of obj else (map_of obj)(key \<mapsto> v))"
  by (simp add: assign_def AList.update_conv')

lemma merge_loop_map_of:
  "map_of (merge_loop keys m merged) k =
     (if k \<in> set keys \<and> k \<noteq> ''toolbar'' \<and> k \<noteq> ''__proto__''
      then Some (get_property m k) else map_of merged k)"
  by (induction keys arbitrary: merged) (auto simp: assign_map_of)

lemma mergedModules_lookup:
  assumes "modules (options p) = Some m"
  shows "map_of (mergedModules p) k =
           (case map_of m k of
              Some v \<Rightarrow> (if k = ''__proto__'' then map_of (default_modules p) k else Some v)
            | None \<Rightarrow> map_of (default_modules p) k)"
proof (cases "map_of m k")
  case None
  then have nk: "k \<notin> fst ` set m"
    by (simp add: map_of_eq_None_iff)
  with assms None show ?thesis
    by (auto simp: mergedModules_def Let_def js_in_toolbar merge_loop_map_of Object_keys_def
        assign_map_of)
next
  case (Some v)
  then have ik: "k \<in> fst ` set m"
    by (force dest: map_of_SomeD)
  from Some have gp: "get_property m k = v"
    by (rule get_property_own)
  show ?thesis
  proof (cases "k = ''toolbar''")
    case True
    with assms Some ik gp show ?thesis
      by (simp add: mergedModules_def Let_def js_in_toolbar assign_map_of)
  next
    case False
    with assms Some ik gp show ?thesis
      by (simp add: mergedModules_def Let_def js_in_toolbar merge_loop_map_of Object_keys_def
          assign_map_of)
  qed
qed

lemma default_modules_keys: "fst ` set (default_modules p) = {''keyboard'', ''toolbar''}"
  by (auto simp: default_modules_def)

lemma spread_other:
  "k \<notin> fst ` set src \<Longrightarrow> map_of (spread src obj) k = map_of obj k"
proof -
  have "k \<notin> fst ` set src \<Longrightarrow>
        map_of (foldl (\<lambda>acc kv. AList.update (fst kv) (snd kv) acc) obj src) k = map_of obj k"
    by (induction src arbitrary: obj) (auto simp: AList.update_conv')
  then show "k \<notin> fst ` set src \<Longrightarrow> map_of (spread src obj) k = map_of obj k"
    by (simp add: spread_def)
qed

lemma finalOptions_modules:
  "map_of (finalOptions p) ''modules'' = Some (JObj (mergedModules p))"
proof -
  have "''modules'' \<notin> fst ` set (filter (\<lambda>kv. fst kv \<noteq> ''modules'') (otherOptions (options p)))"
    by auto
  then show ?thesis
    unfolding finalOptions_def by (simp add: spread_other)
qed

text \<open>
  C2.  Without caller modules the defaults are used.  With caller modules \<open>m\<close>, every
  entry of \<open>m\<close> under a key that has a default entry replaces that entry, as does every
  entry of \<open>m\<close> under any key that an assignment stores (all but \<open>__proto__\<close>);
  keys that \<open>m\<close> does not have keep their defaults.  In particular the caller's
  \<open>keyboard\<close> entry replaces the default key bindings, the caller's \<open>toolbar\<close> entry
  replaces the resolved default toolbar as a whole, and without one the resolved
  default toolbar stays.  The editor is created with these merged modules, whatever the
  caller's other options are.
\<close>

theorem C2_modules_override_by_key:
  "(modules (options p) = None \<longrightarrow> mergedModules p = default_modules p)
   \<and> (modules (options p) = Some m \<longrightarrow>
        (\<forall>k v. map_of m k = Some v \<and> k \<in> fst ` set (default_modules p) \<longrightarrow>
                map_of (mergedModules p) k = Some v)
        \<and> (\<forall>k v. map_of m k = Some v \<and> k \<noteq> ''__proto__'' \<longrightarrow>
                map_of (mergedModules p) k = Some v)
        \<and> (\<forall>k. k \<notin> fst ` set m \<longrightarrow> map_of (mergedModules p) k = map_of (default_modules p) k)
        \<and> (\<forall>kb. map_of m ''keyboard'' = Some kb \<longrightarrow> map_of (mergedModules p) ''keyboard'' = Some kb)
        \<and> (\<forall>tb. map_of m ''toolbar'' = Some tb \<longrightarrow> map_of (mergedModules p) ''toolbar'' = Some tb)
        \<and> (''toolbar'' \<notin> fst ` set m \<longrightarrow>
             map_of (mergedModules p) ''toolbar'' = Some (resolve_toolbar (toolbar p))))
   \<and> map_of (finalOptions p) ''modules'' = Some (JObj (mergedModules p))"
proof (intro conjI impI)
  assume "modules (options p) = None"
  then show "mergedModules p = default_modules p"
    by (simp add: mergedModules_def)
next
  assume m: "modules (options p) = Some m"
  show general: "\<forall>k v. map_of m k = Some v \<and> k \<noteq> ''__proto__'' \<longrightarrow>
                map_of (mergedModules p) k = Some v"
    by (simp add: mergedModules_lookup [OF m])
  show "\<forall>k v. map_of m k = Some v \<and> k \<in> fst ` set (default_modules p) \<longrightarrow>
                map_of (mergedModules p) k = Some v"
    using general by (auto simp: default_modules_keys)
  show "\<forall>k. k \<notin> fst ` set m \<longrightarrow> map_of (mergedModules p) k = map_of (default_modules p) k"
    by (auto simp: mergedModules_lookup [OF m] split: option.splits dest: map_of_SomeD intro: rev_image_eqI)
  show "\<forall>kb. map_of m ''keyboard'' = Some kb \<longrightarrow> map_of (mergedModules p) ''keyboard'' = Some kb"
    by (simp add: mergedModules_lookup [OF m])
  show "\<forall>tb. map_of m ''toolbar'' = Some tb \<longrightarrow> map_of (mergedModules p) ''toolbar'' = Some tb"
    by (simp add: mergedModules_lookup [OF m])
  assume "''toolbar'' \<notin> fst ` set m"
  then have "map_of m ''toolbar'' = None"
    by (simp add: map_of_eq_None_iff)
  then show "map_of (mergedModules p) ''toolbar'' = Some (resolve_toolbar (toolbar p))"
    by (simp add: mergedModules_lookup [OF m] default_modules_def)
next
  show "map_of (finalOptions p) ''modules'' = Some (JObj (mergedModules p))"
    by (rule finalOptions_modules)
qed

text \<open>
  C2 at the playground's props (an image module and a toolbar object) and at the
  tests' props (no modules).
\<close>

theorem C2_witness:
  "modules (options playground_props) = Some playground_modules
   \<and> map_of (mergedModules playground_props) ''toolbar'' =
       Some (JObj [(''container'', preset_full),
                   (''handlers'', JObj [(''image'', JRef ''customImageHandler'')])])
   \<and> map_of (mergedModules playground_props) ''imageHandler'' = Some (JObj [])
   \<and> map_of (mergedModules playground_props) ''keyboard'' = Some default_keyboard
   \<and> modules (options test_props) = None
   \<and> mergedModules test_props = [(''keyboard'', default_keyboard), (''toolbar'', preset_full)]"
proof -
  have m: "modules (options playground_props) = Some playground_modules"
    by (simp add: playground_props_def)
  have n: "modules (options test_props) = None"
    by (simp add: test_props_def)
  note inst = C2_modules_override_by_key [of playground_props playground_modules]
  from inst m have "map_of (mergedModules playground_props) ''toolbar'' =
       Some (JObj [(''container'', preset_full),
                   (''handlers'', JObj [(''image'', JRef ''customImageHandler'')])])"
    by (simp add: playground_modules_def)
  moreover from inst m have "map_of (mergedModules playground_props) ''imageHandler'' = Some (JObj [])"
    by (simp add: playground_modules_def)
  moreover from inst m have "map_of (mergedModules playground_props) ''keyboard'' = Some default_keyboard"
    by (simp add: playground_modules_def default_modules_def)
  moreover from C2_modules_override_by_key [of test_props "[]"] n
  have "mergedModules test_props = [(''keyboard'', default_keyboard), (''toolbar'', preset_full)]"
    by (simp add: default_modules_def test_props_def resolve_toolbar_full)
  ultimately show ?thesis using m n by simp
qed

section \<open>Properties of the component's reactions\<close>

lemma or_empty_id: "or_empty s = s"
  by (simp add: or_empty_def)

text \<open>
  C3.  When \<open>modelValue\<close> changes and an editor exists, the watcher calls
  \<open>dangerouslyPasteHTML\<close> once, with the new value, if that value differs from the
  root's HTML, and the instance is then what the library made of it; if the value equals
  the root's HTML the watcher makes no call and the instance is unchanged.  Before the
  editor exists the watcher does nothing.
\<close>

theorem C3_watch_pastes_when_different:
  "fst (watch_modelValue lib (Some q) newVal) =
     (if newVal \<noteq> root_innerHTML q then [DangerouslyPasteHTML newVal] else [])
   \<and> snd (watch_modelValue lib (Some q) newVal) =
       (if newVal \<noteq> root_innerHTML q then Some (lib_paste lib newVal q) else Some q)
   \<and> watch_modelValue lib None newVal = ([], None)"
  by (simp add: watch_modelValue_def or_empty_id)

text \<open>
  C4.  The listener that \<open>onMounted\<close> registers for \<open>text-change\<close> emits
  \<open>update:modelValue\<close> with the root's current HTML, then \<open>text-change\<close>.  It is
  registered, given the container, exactly when the library's \<open>clipboard\<close> has the
  method \<open>addMatcher\<close> that \<open>onMounted\<close> calls before.
\<close>

theorem C4_text_change_emits_update:
  "text_change_listener q = [UpdateModelValue (root_innerHTML q), TextChange]
   \<and> update_payloads (text_change_listener q) = [root_innerHTML q]
   \<and> TextChange \<in> set (text_change_listener q)
   \<and> (On ''text-change'' \<in> set (m_calls (onMounted lib p (Some container)))
        \<longleftrightarrow> lib_addMatcher lib)"
  by (simp add: text_change_listener_def update_payloads_def onMounted_def Let_def)

text \<open>
  C5 (as stated, refuted).  With the library of the unit tests, whose
  \<open>dangerouslyPasteHTML\<close> has no effect, \<open>onMounted\<close> creates the editor and
  \<open>modelValue\<close> changes to \<open><p>Updated</p>\<close>: after the watcher has run, the root's
  HTML is not the bound value.
\<close>

theorem C5_mock_editor_keeps_old_html:
  "map_option root_innerHTML
     (snd (watch_modelValue MockQuill
             (m_quill (onMounted MockQuill test_props (Some ''editorContainer'')))
             ''<p>Updated</p>''))
   \<noteq> Some ''<p>Updated</p>''"
  by (simp add: watch_modelValue_def onMounted_def MockQuill_def Let_def)

text \<open>
  C5 (amended).  After the reaction to \<open>text-change\<close> the emitted
  \<open>update:modelValue\<close> payload is the root's HTML.  After the reaction to a change of
  \<open>modelValue\<close> the root's HTML is the bound value if it was so already, and otherwise
  it is the HTML the library's \<open>dangerouslyPasteHTML\<close> produced for that value.
\<close>

theorem C5_mirror_after_sync:
  "update_payloads (text_change_listener q) = [root_innerHTML q]
   \<and> map_option root_innerHTML (snd (watch_modelValue lib (Some q) newVal)) =
       Some (if newVal = root_innerHTML q then newVal
             else root_innerHTML (lib_paste lib newVal q))"
  by (simp add: text_change_listener_def update_payloads_def watch_modelValue_def or_empty_id)

lemma onMounted_completes:
  "m_thrown (onMounted lib p (Some container)) = None \<longleftrightarrow> lib_addMatcher lib"
  by (simp add: onMounted_def Let_def)

lemma onMounted_MockQuill:
  "onMounted MockQuill p (Some container) =
     \<lparr>m_quill = Some (lib_new MockQuill container (finalOptions p)),
      m_calls = [NewQuill container (finalOptions p)],
      m_emitted = [],
      m_thrown = Some TypeError\<rparr>"
  by (simp add: onMounted_def MockQuill_def)

text \<open>
  C6.  The listener of \<open>selection-change\<close> emits \<open>blur\<close> exactly when the range is
  \<open>null\<close> and \<open>focus\<close> exactly when it is not, one event per notification.  Given
  the container and a library whose \<open>clipboard\<close> has \<open>addMatcher\<close>, \<open>onMounted\<close>
  runs to its end: the editor it keeps is the one that \<open>new Quill\<close> returned for the
  container and the final options, after the initial content was pasted into it; the
  one event it emits is \<open>ready\<close> with that very instance, and the calls it made are
  the five of the source, in their order.  Without \<open>addMatcher\<close> it throws after
  creating the editor and emits nothing; without the container it does nothing.
\<close>

theorem C6_selection_change_and_ready:
  "(Blur \<in> set (selection_change_listener rng) \<longleftrightarrow> rng = RangeNull)
   \<and> (Focus \<in> set (selection_change_listener rng) \<longleftrightarrow> rng \<noteq> RangeNull)
   \<and> selection_change_listener rng = (if rng = RangeNull then [Blur] else [Focus])
   \<and> (lib_addMatcher lib \<longrightarrow>
        m_thrown (onMounted lib p (Some container)) = None
        \<and> m_quill (onMounted lib p (Some container)) =
            Some (lib_paste lib (modelValue p) (lib_new lib container (finalOptions p)))
        \<and> m_emitted (onMounted lib p (Some container)) =
            [Ready (lib_paste lib (modelValue p) (lib_new lib container (finalOptions p)))]
        \<and> m_calls (onMounted lib p (Some container)) =
            [NewQuill container (finalOptions p), AddMatcher ''BR'',
             DangerouslyPasteHTML (modelValue p), On ''text-change'', On ''selection-change''])
   \<and> (\<not> lib_addMatcher lib \<longrightarrow>
        m_thrown (onMounted lib p (Some container)) = Some TypeError
        \<and> m_quill (onMounted lib p (Some container)) =
            Some (lib_new lib container (finalOptions p))
        \<and> m_emitted (onMounted lib p (Some container)) = []
        \<and> m_calls (onMounted lib p (Some container)) = [NewQuill container (finalOptions p)])
   \<and> onMounted lib p None = \<lparr>m_quill = None, m_calls = [], m_emitted = [], m_thrown = None\<rparr>"
  by (simp add: selection_change_listener_def onMounted_def Let_def or_empty_id)

text \<open>
  C6 at the tests' props with the example library, where \<open>onMounted\<close> runs to its end,
  and with the tests' library, where it throws after creating the editor.
\<close>

theorem C6_witness:
  "lib_addMatcher ExampleQuill
   \<and> \<not> lib_addMatcher MockQuill
   \<and> m_thrown (onMounted ExampleQuill test_props (Some ''editorContainer'')) = None
   \<and> m_emitted (onMounted ExampleQuill test_props (Some ''editorContainer'')) =
       [Ready \<lparr>root_innerHTML = ''<p>Initial</p>'', getLeaf = (\<lambda>i. None)\<rparr>]
   \<and> m_quill (onMounted ExampleQuill test_props (Some ''editorContainer'')) =
       Some \<lparr>root_innerHTML = ''<p>Initial</p>'', getLeaf = (\<lambda>i. None)\<rparr>
   \<and> m_thrown (onMounted MockQuill test_props (Some ''editorContainer'')) \<noteq> None
   \<and> m_emitted (onMounted MockQuill test_props (Some ''editorContainer'')) = []"
proof -
  have ok: "lib_addMatcher ExampleQuill"
    by (simp add: ExampleQuill_def)
  have bad: "\<not> lib_addMatcher MockQuill"
    by (simp add: MockQuill_def)
  have inst: "lib_paste ExampleQuill (modelValue test_props)
                (lib_new ExampleQuill ''editorContainer'' (finalOptions test_props)) =
              \<lparr>root_innerHTML = ''<p>Initial</p>'', getLeaf = (\<lambda>i. None)\<rparr>"
    by (simp add: ExampleQuill_def test_props_def)
  note example = C6_selection_change_and_ready [of RangeNull ExampleQuill test_props "''editorContainer''"]
  from example ok have t: "m_thrown (onMounted ExampleQuill test_props (Some ''editorContainer'')) = None"
    by blast
  from example ok inst
  have a: "m_emitted (onMounted ExampleQuill test_props (Some ''editorContainer'')) =
       [Ready \<lparr>root_innerHTML = ''<p>Initial</p>'', getLeaf = (\<lambda>i. None)\<rparr>]"
    and b: "m_quill (onMounted ExampleQuill test_props (Some ''editorContainer'')) =
       Some \<lparr>root_innerHTML = ''<p>Initial</p>'', getLeaf = (\<lambda>i. None)\<rparr>"
    by simp_all
  from C6_selection_change_and_ready [of RangeNull MockQuill test_props "''editorContainer''"] bad
  have c: "m_thrown (onMounted MockQuill test_props (Some ''editorContainer'')) \<noteq> None"
    and d: "m_emitted (onMounted MockQuill test_props (Some ''editorContainer'')) = []"
    by simp_all
  from ok bad t a b c d show ?thesis by simp
qed

section \<open>Properties of the soft-break handler\<close>

lemma softBreakHandler_guard:
  "q = None \<or> \<not> truthy_range rng \<Longrightarrow> softBreakHandler lib q rng ctx = (Inr False, [])"
  by (auto simp: softBreakHandler_def ret_def)

lemma softBreakHandler_sources:
  "lib_sources lib \<Longrightarrow>
   softBreakHandler lib (Some quill) (Range i n) ctx =
     (Inr False,
      [GetLeaf i, GetLeaf (i + 1), InsertEmbed i ''br'' (JBool True) USER]
      @ (if second_break (getLeaf quill i) (getLeaf quill (i + 1))
         then [InsertEmbed i ''br'' (JBool True) USER] else [])
      @ [SetSelection (i + 1) SILENT])"
  by (simp add: softBreakHandler_def insert_br_def and_then_def ret_def access_def
      range_dot_index_def quill_getLeaf_def quill_insertEmbed_def quill_setSelection_def
      Quill_sources_def)

lemma softBreakHandler_no_sources:
  "\<not> lib_sources lib \<Longrightarrow>
   softBreakHandler lib (Some quill) (Range i n) ctx = (Inl TypeError, [GetLeaf i, GetLeaf (i + 1)])"
  by (simp add: softBreakHandler_def insert_br_def and_then_def ret_def access_def throw_def
      range_dot_index_def quill_getLeaf_def Quill_sources_def)

text \<open>
  C9.  With a library whose class has \<open>sources\<close>, as the handler names them,
  \<open>softBreakHandler\<close> returns \<open>false\<close> for every editor, range and context.  Without
  an editor, or with a \<open>null\<close> or \<open>undefined\<close> range, it returns \<open>false\<close> and has
  made no access at all: no read of a leaf, no insertion, no selection.  So whenever an
  access is made, there is an editor and a range object, and the handler never throws
  for want of one.  With an editor and a range the accesses are the two reads of the
  leaves, one or two insertions of \<open>br\<close> at the range's index, and one silent selection
  of the next index.  Without \<open>sources\<close> the handler throws after the two reads.
\<close>

theorem C9_softBreakHandler_guarded:
  "(lib_sources lib \<longrightarrow> fst (softBreakHandler lib q rng ctx) = Inr False)
   \<and> (q = None \<or> rng = RangeNull \<or> rng = RangeUndefined \<longrightarrow>
        softBreakHandler lib q rng ctx = (Inr False, []))
   \<and> (snd (softBreakHandler lib q rng ctx) \<noteq> [] \<longrightarrow> q \<noteq> None \<and> (\<exists>i n. rng = Range i n))
   \<and> (fst (softBreakHandler lib q rng ctx) \<noteq> Inr False \<longrightarrow>
        \<not> lib_sources lib \<and> q \<noteq> None \<and> (\<exists>i n. rng = Range i n))
   \<and> (\<forall>quill i n. lib_sources lib \<and> q = Some quill \<and> rng = Range i n \<longrightarrow>
         snd (softBreakHandler lib q rng ctx) =
           [GetLeaf i, GetLeaf (i + 1), InsertEmbed i ''br'' (JBool True) USER]
           @ (if second_break (getLeaf quill i) (getLeaf quill (i + 1))
              then [InsertEmbed i ''br'' (JBool True) USER] else [])
           @ [SetSelection (i + 1) SILENT])
   \<and> (\<forall>quill i n. \<not> lib_sources lib \<and> q = Some quill \<and> rng = Range i n \<longrightarrow>
         softBreakHandler lib q rng ctx = (Inl TypeError, [GetLeaf i, GetLeaf (i + 1)]))"
proof (cases q)
  case None
  then show ?thesis
    by (simp add: softBreakHandler_guard)
next
  case (Some quill)
  show ?thesis
  proof (cases rng)
    case RangeNull
    then show ?thesis by (simp add: softBreakHandler_guard)
  next
    case RangeUndefined
    then show ?thesis by (simp add: softBreakHandler_guard)
  next
    case (Range i n)
    show ?thesis
    proof (cases "lib_sources lib")
      case True
      with Some Range show ?thesis
        by (simp add: softBreakHandler_sources)
    next
      case False
      with Some Range show ?thesis
        by (simp add: softBreakHandler_no_sources)
    qed
  qed
qed

text \<open>
  C9 with the example library: without an editor, with a \<open>null\<close> range, at index 3
  of the example editor, where the next leaf has another parent (two insertions), and
  at index 1, where it has the same (one insertion).
\<close>

theorem C9_witness:
  "lib_sources ExampleQuill
   \<and> softBreakHandler ExampleQuill None (Range 3 0) JUndefined = (Inr False, [])
   \<and> softBreakHandler ExampleQuill (Some example_quill) RangeNull JUndefined = (Inr False, [])
   \<and> softBreakHandler ExampleQuill (Some example_quill) (Range 3 0) JUndefined =
       (Inr False,
        [GetLeaf 3, GetLeaf 4, InsertEmbed 3 ''br'' (JBool True) USER,
         InsertEmbed 3 ''br'' (JBool True) USER, SetSelection 4 SILENT])
   \<and> softBreakHandler ExampleQuill (Some example_quill) (Range 1 0) JUndefined =
       (Inr False,
        [GetLeaf 1, GetLeaf 2, InsertEmbed 1 ''br'' (JBool True) USER, SetSelection 2 SILENT])"
proof -
  have src: "lib_sources ExampleQuill"
    by (simp add: ExampleQuill_def)
  from C9_softBreakHandler_guarded [of ExampleQuill None "Range 3 0" JUndefined]
  have a: "softBreakHandler ExampleQuill None (Range 3 0) JUndefined = (Inr False, [])"
    by simp
  from C9_softBreakHandler_guarded [of ExampleQuill "Some example_quill" RangeNull JUndefined]
  have b: "softBreakHandler ExampleQuill (Some example_quill) RangeNull JUndefined = (Inr False, [])"
    by simp
  from C9_softBreakHandler_guarded [of ExampleQuill "Some example_quill" "Range 3 0" JUndefined] src
  have c: "softBreakHandler ExampleQuill (Some example_quill) (Range 3 0) JUndefined =
       (Inr False,
        [GetLeaf 3, GetLeaf 4, InsertEmbed 3 ''br'' (JBool True) USER,
         InsertEmbed 3 ''br'' (JBool True) USER, SetSelection 4 SILENT])"
    by (simp add: prod_eq_iff example_quill_def second_break_def)
  from C9_softBreakHandler_guarded [of ExampleQuill "Some example_quill" "Range 1 0" JUndefined] src
  have d: "softBreakHandler ExampleQuill (Some example_quill) (Range 1 0) JUndefined =
       (Inr False,
        [GetLeaf 1, GetLeaf 2, InsertEmbed 1 ''br'' (JBool True) USER, SetSelection 2 SILENT])"
    by (simp add: prod_eq_iff example_quill_def second_break_def)
  from src a b c d show ?thesis by simp
qed

lemma softBreakHandler_MockQuill:
  "softBreakHandler MockQuill (Some (lib_new MockQuill container opts)) (Range 3 0) ctx =
     (Inl TypeError, [GetLeaf 3, GetLeaf 4])"
  by (simp add: softBreakHandler_no_sources MockQuill_def)

end
